theory Spec2Isabelle
  imports Main
begin

section \<open>The feature extraction and matching entry points of \<^verbatim>\<open>src/exe/feature.cc\<close>\<close>

text \<open>
  The file holds eight entry points (\<^verbatim>\<open>RunFeatureExtractor\<close>, \<^verbatim>\<open>RunFeatureImporter\<close>,
  \<^verbatim>\<open>RunExhaustiveMatcher\<close>, \<^verbatim>\<open>RunMatchesImporter\<close>, \<^verbatim>\<open>RunSequentialMatcher\<close>,
  \<^verbatim>\<open>RunSpatialMatcher\<close>, \<^verbatim>\<open>RunTransitiveMatcher\<close>, \<^verbatim>\<open>RunVocabTreeMatcher\<close>) and one
  file-local helper, \<^verbatim>\<open>VerifyCameraParams\<close>. Each entry point is embedded as a function
  from the parsed options to the pair of its return value and the sequence of effects it
  performs, in program order. Everything the file calls but does not define (the camera
  model registry, the CSV parser, the text file reader, the build constant
  \<^verbatim>\<open>kUseOpenGL\<close>, the behaviour of a started thread) is a field of an environment record.
\<close>

subsection \<open>Option structures\<close>

text \<open>\<^verbatim>\<open>ImageReaderOptions\<close>: the fields the entry points read or write.\<close>

record ImageReaderOptions =
  database_path :: string
  image_path :: string
  image_list :: "string list"
  camera_model :: string
  camera_params :: string

text \<open>
  \<^verbatim>\<open>SiftExtractionOptions\<close> and \<^verbatim>\<open>SiftMatchingOptions\<close> both have a member
  \<^verbatim>\<open>use_gpu\<close>; the two record fields carry a prefix to keep them apart.
\<close>

record SiftExtractionOptions =
  extraction_use_gpu :: bool

record SiftMatchingOptions =
  matching_use_gpu :: bool

text \<open>
  The strategy option structures are passed through to the matcher constructors
  untouched; none of their members is read in this file.
\<close>

datatype ExhaustiveMatchingOptions = ExhaustiveMatchingOptions
datatype SequentialMatchingOptions = SequentialMatchingOptions
datatype SpatialMatchingOptions = SpatialMatchingOptions
datatype TransitiveMatchingOptions = TransitiveMatchingOptions
datatype VocabTreeMatchingOptions = VocabTreeMatchingOptions

text \<open>The two option structures that \<^verbatim>\<open>RunMatchesImporter\<close> fills in.\<close>

record ImagePairsMatchingOptions =
  match_list_path :: string

record FeaturePairsMatchingOptions =
  feature_match_list_path :: string
  verify_matches :: bool

text \<open>
  \<^verbatim>\<open>OptionManager\<close> after a successful \<^verbatim>\<open>Parse\<close>. Its members \<^verbatim>\<open>database_path\<close> and
  \<^verbatim>\<open>image_path\<close> are prefixed, the reader options have members of the same names.
\<close>

record OptionManager =
  om_database_path :: string
  om_image_path :: string
  image_reader :: ImageReaderOptions
  sift_extraction :: SiftExtractionOptions
  sift_matching :: SiftMatchingOptions
  exhaustive_matching :: ExhaustiveMatchingOptions
  sequential_matching :: SequentialMatchingOptions
  spatial_matching :: SpatialMatchingOptions
  transitive_matching :: TransitiveMatchingOptions
  vocab_tree_matching :: VocabTreeMatchingOptions

text \<open>
  A local variable registered with \<^verbatim>\<open>AddDefaultOption\<close> keeps the value it was
  initialised with unless the command line supplies the option.
\<close>

definition default_option :: "'a \<Rightarrow> 'a option \<Rightarrow> 'a" where
  "default_option initial supplied = (case supplied of None \<Rightarrow> initial | Some v \<Rightarrow> v)"

subsection \<open>Workers and effects\<close>

text \<open>The \<^verbatim>\<open>Thread\<close> subclasses the entry points construct, with their constructor arguments.\<close>

datatype worker =
    SiftFeatureExtractor ImageReaderOptions SiftExtractionOptions
  | FeatureImporter ImageReaderOptions string
  | ExhaustiveFeatureMatcher ExhaustiveMatchingOptions SiftMatchingOptions string
  | ImagePairsFeatureMatcher ImagePairsMatchingOptions SiftMatchingOptions string
  | FeaturePairsFeatureMatcher FeaturePairsMatchingOptions SiftMatchingOptions string
  | SequentialFeatureMatcher SequentialMatchingOptions SiftMatchingOptions string
  | SpatialFeatureMatcher SpatialMatchingOptions SiftMatchingOptions string
  | TransitiveFeatureMatcher TransitiveMatchingOptions SiftMatchingOptions string
  | VocabTreeFeatureMatcher VocabTreeMatchingOptions SiftMatchingOptions string

text \<open>
  Modelled from the spec: the class \<^verbatim>\<open>Thread\<close> is not part of this file; the terminal
  states of a started worker are those of the lifecycle \<open>Created \<rightarrow> Running \<rightarrow>
  {Completed, Failed}\<close>.
\<close>

datatype terminal = Completed | Failed

text \<open>
  The effects of an entry point, one constructor per call that leaves the file, per
  write to \<^verbatim>\<open>std::cerr\<close> and per object construction. The type parameter stands for
  \<^verbatim>\<open>double\<close>: the file never computes with the parsed parameters.
\<close>

datatype 'd event =
    Call_ReadTextFileLines string
  | Call_ExistsCameraModelWithName string
  | Call_CSVToVector string
  | Call_CameraModelNameToId string
  | Call_CameraModelVerifyParams int "'d list"
  | Cerr string
  | New_QApplication
  | Construct worker
  | Call_RunThreadWithOpenGLContext worker
  | Call_Start worker
  | Call_Wait worker

text \<open>What the file takes from the rest of the program and from the outside world.\<close>

record 'd env =
  kUseOpenGL :: bool
  ExistsCameraModelWithName :: "string \<Rightarrow> bool"
  CameraModelNameToId :: "string \<Rightarrow> int"
  CameraModelVerifyParams :: "int \<Rightarrow> 'd list \<Rightarrow> bool"
  CSVToVector :: "string \<Rightarrow> 'd list"
  ReadTextFileLines :: "string \<Rightarrow> string list"
  GetRecursiveFileList :: "string \<Rightarrow> string list"
  worker_outcome :: "worker \<Rightarrow> terminal"

definition EXIT_SUCCESS :: int where
  "EXIT_SUCCESS = 0"

definition EXIT_FAILURE :: int where
  "EXIT_FAILURE = 1"

subsection \<open>The helper \<^verbatim>\<open>VerifyCameraParams\<close>\<close>

text \<open>
  The conjunction \<^verbatim>\<open>camera_params.size() > 0 && !CameraModelVerifyParams(...)\<close> is
  short-circuit: the registry's validator is called only for a non-empty vector.
\<close>

definition VerifyCameraParams :: "'d env \<Rightarrow> string \<Rightarrow> string \<Rightarrow> bool \<times> 'd event list" where
  "VerifyCameraParams env camera_model_name params =
     (if \<not> ExistsCameraModelWithName env camera_model_name then
        (False, [Call_ExistsCameraModelWithName camera_model_name,
                 Cerr ''ERROR: Camera model does not exist''])
      else
        (let camera_params_vec = CSVToVector env params;
             camera_model_id = CameraModelNameToId env camera_model_name;
             calls = [Call_ExistsCameraModelWithName camera_model_name,
                      Call_CSVToVector params,
                      Call_CameraModelNameToId camera_model_name]
         in if length camera_params_vec > 0 then
              (if \<not> CameraModelVerifyParams env camera_model_id camera_params_vec then
                 (False, calls @ [Call_CameraModelVerifyParams camera_model_id camera_params_vec,
                                  Cerr ''ERROR: Invalid camera parameters''])
               else
                 (True, calls @ [Call_CameraModelVerifyParams camera_model_id camera_params_vec]))
            else (True, calls)))"

subsection \<open>The entry points\<close>

text \<open>
  The block that every entry point but the feature importer ends with: the worker runs
  through \<^verbatim>\<open>RunThreadWithOpenGLContext\<close> or through \<^verbatim>\<open>Start\<close> and \<^verbatim>\<open>Wait\<close>.
\<close>

definition run_worker :: "bool \<Rightarrow> worker \<Rightarrow> 'd event list" where
  "run_worker gpu w =
     (if gpu then [Call_RunThreadWithOpenGLContext w] else [Call_Start w, Call_Wait w])"

text \<open>\<^verbatim>\<open>std::unique_ptr<QApplication> app; if (... use_gpu && kUseOpenGL) app.reset(new QApplication(argc, argv));\<close>\<close>

definition new_app :: "bool \<Rightarrow> 'd event list" where
  "new_app gpu = (if gpu then [New_QApplication] else [])"

definition RunFeatureExtractor ::
  "'d env \<Rightarrow> OptionManager \<Rightarrow> string option \<Rightarrow> int \<times> 'd event list" where
  "RunFeatureExtractor env options image_list_path_arg =
     (let image_list_path = default_option '''' image_list_path_arg;
          reader_options0 = (image_reader options)
            \<lparr>database_path := om_database_path options, image_path := om_image_path options\<rparr>;
          reading = (if image_list_path \<noteq> [] then [Call_ReadTextFileLines image_list_path] else []);
          reader_options =
            (if image_list_path \<noteq> []
             then reader_options0\<lparr>image_list := ReadTextFileLines env image_list_path\<rparr>
             else reader_options0)
      in if image_list_path \<noteq> [] \<and> image_list reader_options = [] then
           (EXIT_SUCCESS, reading)
         else
           (let exists_check =
                  Call_ExistsCameraModelWithName (camera_model (image_reader options)) #
                  (if \<not> ExistsCameraModelWithName env (camera_model (image_reader options))
                   then [Cerr ''ERROR: Camera model does not exist''] else []);
                verified = VerifyCameraParams env (camera_model (image_reader options))
                                                  (camera_params (image_reader options))
            in if \<not> fst verified then
                 (EXIT_FAILURE, reading @ exists_check @ snd verified)
               else
                 (let gpu = (extraction_use_gpu (sift_extraction options) \<and> kUseOpenGL env);
                      feature_extractor =
                        SiftFeatureExtractor reader_options (sift_extraction options)
                  in (EXIT_SUCCESS,
                      reading @ exists_check @ snd verified @ new_app gpu @
                      [Construct feature_extractor] @ run_worker gpu feature_extractor))))"

definition RunFeatureImporter ::
  "'d env \<Rightarrow> OptionManager \<Rightarrow> string \<Rightarrow> string option \<Rightarrow> int \<times> 'd event list" where
  "RunFeatureImporter env options import_path image_list_path_arg =
     (let image_list_path = default_option '''' image_list_path_arg;
          reader_options0 = (image_reader options)
            \<lparr>database_path := om_database_path options, image_path := om_image_path options\<rparr>;
          reading = (if image_list_path \<noteq> [] then [Call_ReadTextFileLines image_list_path] else []);
          reader_options =
            (if image_list_path \<noteq> []
             then reader_options0\<lparr>image_list := ReadTextFileLines env image_list_path\<rparr>
             else reader_options0)
      in if image_list_path \<noteq> [] \<and> image_list reader_options = [] then
           (EXIT_SUCCESS, reading)
         else
           (let verified = VerifyCameraParams env (camera_model (image_reader options))
                                                  (camera_params (image_reader options))
            in if \<not> fst verified then
                 (EXIT_FAILURE, reading @ snd verified)
               else
                 (let feature_importer = FeatureImporter reader_options import_path
                  in (EXIT_SUCCESS,
                      reading @ snd verified @
                      [Construct feature_importer,
                       Call_Start feature_importer, Call_Wait feature_importer]))))"

definition RunExhaustiveMatcher :: "'d env \<Rightarrow> OptionManager \<Rightarrow> int \<times> 'd event list" where
  "RunExhaustiveMatcher env options =
     (let gpu = (matching_use_gpu (sift_matching options) \<and> kUseOpenGL env);
          feature_matcher =
            ExhaustiveFeatureMatcher (exhaustive_matching options) (sift_matching options)
                                     (om_database_path options)
      in (EXIT_SUCCESS,
          new_app gpu @ [Construct feature_matcher] @ run_worker gpu feature_matcher))"

definition RunMatchesImporter ::
  "'d env \<Rightarrow> OptionManager \<Rightarrow> string \<Rightarrow> string option \<Rightarrow> int \<times> 'd event list" where
  "RunMatchesImporter env options match_list_path_arg match_type_arg =
     (let match_type = default_option ''pairs'' match_type_arg;
          gpu = (matching_use_gpu (sift_matching options) \<and> kUseOpenGL env)
      in if match_type = ''pairs'' then
           (let matcher_options = \<lparr>match_list_path = match_list_path_arg\<rparr>;
                feature_matcher =
                  ImagePairsFeatureMatcher matcher_options (sift_matching options)
                                           (om_database_path options)
            in (EXIT_SUCCESS,
                new_app gpu @ [Construct feature_matcher] @ run_worker gpu feature_matcher))
         else if match_type = ''raw'' \<or> match_type = ''inliers'' then
           (let matcher_options =
                  \<lparr>feature_match_list_path = match_list_path_arg,
                   verify_matches = (match_type = ''raw'')\<rparr>;
                feature_matcher =
                  FeaturePairsFeatureMatcher matcher_options (sift_matching options)
                                             (om_database_path options)
            in (EXIT_SUCCESS,
                new_app gpu @ [Construct feature_matcher] @ run_worker gpu feature_matcher))
         else
           (EXIT_FAILURE, new_app gpu @ [Cerr ''ERROR: Invalid `match_type`'']))"

definition RunSequentialMatcher :: "'d env \<Rightarrow> OptionManager \<Rightarrow> int \<times> 'd event list" where
  "RunSequentialMatcher env options =
     (let gpu = (matching_use_gpu (sift_matching options) \<and> kUseOpenGL env);
          feature_matcher =
            SequentialFeatureMatcher (sequential_matching options) (sift_matching options)
                                     (om_database_path options)
      in (EXIT_SUCCESS,
          new_app gpu @ [Construct feature_matcher] @ run_worker gpu feature_matcher))"

definition RunSpatialMatcher :: "'d env \<Rightarrow> OptionManager \<Rightarrow> int \<times> 'd event list" where
  "RunSpatialMatcher env options =
     (let gpu = (matching_use_gpu (sift_matching options) \<and> kUseOpenGL env);
          feature_matcher =
            SpatialFeatureMatcher (spatial_matching options) (sift_matching options)
                                  (om_database_path options)
      in (EXIT_SUCCESS,
          new_app gpu @ [Construct feature_matcher] @ run_worker gpu feature_matcher))"

definition RunTransitiveMatcher :: "'d env \<Rightarrow> OptionManager \<Rightarrow> int \<times> 'd event list" where
  "RunTransitiveMatcher env options =
     (let gpu = (matching_use_gpu (sift_matching options) \<and> kUseOpenGL env);
          feature_matcher =
            TransitiveFeatureMatcher (transitive_matching options) (sift_matching options)
                                     (om_database_path options)
      in (EXIT_SUCCESS,
          new_app gpu @ [Construct feature_matcher] @ run_worker gpu feature_matcher))"

definition RunVocabTreeMatcher :: "'d env \<Rightarrow> OptionManager \<Rightarrow> int \<times> 'd event list" where
  "RunVocabTreeMatcher env options =
     (let gpu = (matching_use_gpu (sift_matching options) \<and> kUseOpenGL env);
          feature_matcher =
            VocabTreeFeatureMatcher (vocab_tree_matching options) (sift_matching options)
                                    (om_database_path options)
      in (EXIT_SUCCESS,
          new_app gpu @ [Construct feature_matcher] @ run_worker gpu feature_matcher))"

subsection \<open>Observing a run\<close>

text \<open>The workers constructed during a run, in order.\<close>

fun constructed :: "'d event list \<Rightarrow> worker list" where
  "constructed [] = []"
| "constructed (Construct w # es) = w # constructed es"
| "constructed (e # es) = constructed es"

text \<open>The events that execute a worker: the context-owning path, or \<^verbatim>\<open>Start\<close> and \<^verbatim>\<open>Wait\<close>.\<close>

fun is_execution :: "'d event \<Rightarrow> bool" where
  "is_execution (Call_RunThreadWithOpenGLContext w) = True"
| "is_execution (Call_Start w) = True"
| "is_execution (Call_Wait w) = True"
| "is_execution e = False"

definition executions :: "'d event list \<Rightarrow> 'd event list" where
  "executions tr = filter is_execution tr"

text \<open>The calls into the camera model registry and the parameter parser.\<close>

fun is_validation :: "'d event \<Rightarrow> bool" where
  "is_validation (Call_ExistsCameraModelWithName n) = True"
| "is_validation (Call_CSVToVector s) = True"
| "is_validation (Call_CameraModelNameToId n) = True"
| "is_validation (Call_CameraModelVerifyParams i ps) = True"
| "is_validation e = False"

fun is_read :: "'d event \<Rightarrow> bool" where
  "is_read (Call_ReadTextFileLines p) = True"
| "is_read e = False"

fun is_construct :: "'d event \<Rightarrow> bool" where
  "is_construct (Construct w) = True"
| "is_construct e = False"


text \<open>
  \<open>precedes P Q tr\<close>: every event of \<open>tr\<close> that satisfies \<open>Q\<close> comes strictly after an
  event that satisfies \<open>P\<close>.
\<close>

fun precedes :: "('a \<Rightarrow> bool) \<Rightarrow> ('a \<Rightarrow> bool) \<Rightarrow> 'a list \<Rightarrow> bool" where
  "precedes P Q [] = True"
| "precedes P Q (x # xs) = (if Q x then False else if P x then True else precedes P Q xs)"

text \<open>
  The worker a run has started, and the terminal state it reached: the entry points
  block until the worker is done, on either execution path.
\<close>

fun started :: "'d event list \<Rightarrow> worker option" where
  "started [] = None"
| "started (Call_Start w # es) = Some w"
| "started (Call_RunThreadWithOpenGLContext w # es) = Some w"
| "started (e # es) = started es"

definition worker_terminal :: "'d env \<Rightarrow> 'd event list \<Rightarrow> terminal option" where
  "worker_terminal env tr = map_option (worker_outcome env) (started tr)"

text \<open>The early return of the two image entry points: a list file was named and has no lines.\<close>

definition empty_list_file :: "'d env \<Rightarrow> string option \<Rightarrow> bool" where
  "empty_list_file env image_list_path_arg =
     (default_option '''' image_list_path_arg \<noteq> [] \<and>
      ReadTextFileLines env (default_option '''' image_list_path_arg) = [])"

text \<open>The camera settings of the reader options pass \<^verbatim>\<open>VerifyCameraParams\<close>.\<close>

definition camera_config_ok :: "'d env \<Rightarrow> OptionManager \<Rightarrow> bool" where
  "camera_config_ok env options =
     (ExistsCameraModelWithName env (camera_model (image_reader options)) \<and>
      (CSVToVector env (camera_params (image_reader options)) = [] \<or>
       CameraModelVerifyParams env
         (CameraModelNameToId env (camera_model (image_reader options)))
         (CSVToVector env (camera_params (image_reader options)))))"

text \<open>The reader options handed to the extractor and the importer.\<close>

definition reader_options_of :: "'d env \<Rightarrow> OptionManager \<Rightarrow> string option \<Rightarrow> ImageReaderOptions" where
  "reader_options_of env options image_list_path_arg =
     (let base = (image_reader options)
            \<lparr>database_path := om_database_path options, image_path := om_image_path options\<rparr>
      in if default_option '''' image_list_path_arg \<noteq> []
         then base\<lparr>image_list := ReadTextFileLines env (default_option '''' image_list_path_arg)\<rparr>
         else base)"

text \<open>
  Modelled from the spec: the directory scan is done inside the worker (by the image
  reader), which is not part of this file. The resolved image set is the explicit list
  when a list file is named (it takes precedence), the scan of the image directory
  otherwise.
\<close>

definition resolved_image_set :: "'d env \<Rightarrow> OptionManager \<Rightarrow> string option \<Rightarrow> string list" where
  "resolved_image_set env options image_list_path_arg =
     (if default_option '''' image_list_path_arg \<noteq> []
      then ReadTextFileLines env (default_option '''' image_list_path_arg)
      else GetRecursiveFileList env (om_image_path options))"

subsection \<open>A sample environment\<close>

text \<open>
  Modelled from the spec: the registry (\<^verbatim>\<open>base/camera_models.h\<close>) and the parser
  (\<^verbatim>\<open>util/misc.h\<close>) are not part of this file. The sample registry knows two models,
  one with three parameters and one with four; the sample parser reads a list of
  decimal numbers separated by commas or semicolons, skips empty fields and yields
  no values when a field is not a number.
\<close>

fun split_fields :: "string \<Rightarrow> string list" where
  "split_fields [] = [[]]"
| "split_fields (c # cs) =
     (if c = CHR '','' \<or> c = CHR '';'' then [] # split_fields cs
      else (case split_fields cs of [] \<Rightarrow> [[c]] | f # fs \<Rightarrow> (c # f) # fs))"

definition is_digit :: "char \<Rightarrow> bool" where
  "is_digit c = (c \<in> set ''0123456789'')"

definition number_of :: "string \<Rightarrow> nat" where
  "number_of s = foldl (\<lambda>n c. 10 * n + (of_char c - 48)) 0 s"

definition sample_CSVToVector :: "string \<Rightarrow> nat list" where
  "sample_CSVToVector s =
     (let elems = filter (\<lambda>e. e \<noteq> []) (split_fields s)
      in if list_all (list_all is_digit) elems then map number_of elems else [])"

definition sample_env :: "nat env" where
  "sample_env =
     \<lparr>kUseOpenGL = True,
      ExistsCameraModelWithName = (\<lambda>n. n = ''SIMPLE_PINHOLE'' \<or> n = ''PINHOLE''),
      CameraModelNameToId =
        (\<lambda>n. if n = ''SIMPLE_PINHOLE'' then 0 else if n = ''PINHOLE'' then 1 else - 1),
      CameraModelVerifyParams =
        (\<lambda>i ps. (i = 0 \<and> length ps = 3) \<or> (i = 1 \<and> length ps = 4)),
      CSVToVector = sample_CSVToVector,
      ReadTextFileLines =
        (\<lambda>p. if p = ''images.txt'' then [''a.jpg'', ''b.jpg''] else []),
      GetRecursiveFileList = (\<lambda>d. []),
      worker_outcome = (\<lambda>w. Completed)\<rparr>"

definition sample_options :: OptionManager where
  "sample_options =
     \<lparr>om_database_path = ''db.sqlite'',
      om_image_path = ''images'',
      image_reader =
        \<lparr>database_path = '''', image_path = '''', image_list = [],
         camera_model = ''SIMPLE_PINHOLE'', camera_params = ''''\<rparr>,
      sift_extraction = \<lparr>extraction_use_gpu = True\<rparr>,
      sift_matching = \<lparr>matching_use_gpu = True\<rparr>,
      exhaustive_matching = ExhaustiveMatchingOptions,
      sequential_matching = SequentialMatchingOptions,
      spatial_matching = SpatialMatchingOptions,
      transitive_matching = TransitiveMatchingOptions,
      vocab_tree_matching = VocabTreeMatchingOptions\<rparr>"

text \<open>The sample options with other camera settings.\<close>

definition with_camera :: "string \<Rightarrow> string \<Rightarrow> OptionManager \<Rightarrow> OptionManager" where
  "with_camera m p options =
     options\<lparr>image_reader := (image_reader options)\<lparr>camera_model := m, camera_params := p\<rparr>\<rparr>"

text \<open>
  The two outcomes of the execution block. \<open>runs_on gpu tr w\<close>: the run constructed the
  worker \<open>w\<close> and nothing else, executed it through \<^verbatim>\<open>RunThreadWithOpenGLContext\<close> when
  \<open>gpu\<close> holds and through \<^verbatim>\<open>Start\<close> and \<^verbatim>\<open>Wait\<close> otherwise, and created a
  \<^verbatim>\<open>QApplication\<close> exactly when \<open>gpu\<close> holds. \<open>runs_nothing gpu tr\<close>: the run constructed
  and executed no worker, and created no \<^verbatim>\<open>QApplication\<close> unless \<open>gpu\<close> holds.
\<close>

definition runs_on :: "bool \<Rightarrow> 'd event list \<Rightarrow> worker \<Rightarrow> bool" where
  "runs_on gpu tr w =
     (constructed tr = [w] \<and>
      executions tr =
        (if gpu then [Call_RunThreadWithOpenGLContext w] else [Call_Start w, Call_Wait w]) \<and>
      (New_QApplication \<in> set tr \<longleftrightarrow> gpu))"

definition runs_nothing :: "bool \<Rightarrow> 'd event list \<Rightarrow> bool" where
  "runs_nothing gpu tr =
     (constructed tr = [] \<and> executions tr = [] \<and> (\<not> gpu \<longrightarrow> New_QApplication \<notin> set tr))"

section \<open>Properties of the entry points\<close>

subsection \<open>Traces of the building blocks\<close>

lemma constructed_append: "constructed (xs @ ys) = constructed xs @ constructed ys"
  by (induction xs rule: constructed.induct) simp_all

lemma started_append:
  "started (xs @ ys) = (case started xs of None \<Rightarrow> started ys | Some w \<Rightarrow> Some w)"
  by (induction xs rule: started.induct) simp_all

lemma executions_append: "executions (xs @ ys) = executions xs @ executions ys"
  by (simp add: executions_def)

lemma executions_Cons:
  "executions (e # es) = (if is_execution e then e # executions es else executions es)"
  by (simp add: executions_def)

lemma executions_Nil: "executions [] = []"
  by (simp add: executions_def)

lemma VerifyCameraParams_result:
  "fst (VerifyCameraParams env m p) =
     (ExistsCameraModelWithName env m \<and>
      (CSVToVector env p = [] \<or>
       CameraModelVerifyParams env (CameraModelNameToId env m) (CSVToVector env p)))"
  by (simp add: VerifyCameraParams_def Let_def)

lemma VerifyCameraParams_trace:
  "constructed (snd (VerifyCameraParams env m p)) = []"
  "executions (snd (VerifyCameraParams env m p)) = []"
  "started (snd (VerifyCameraParams env m p)) = None"
  "New_QApplication \<notin> set (snd (VerifyCameraParams env m p))"
  "\<forall>e\<in>set (snd (VerifyCameraParams env m p)). \<not> is_read e \<and> \<not> is_construct e"
  "\<exists>e\<in>set (snd (VerifyCameraParams env m p)). is_validation e"
  "hd (snd (VerifyCameraParams env m p)) = Call_ExistsCameraModelWithName m"
  "snd (VerifyCameraParams env m p) \<noteq> []"
  by (simp_all add: VerifyCameraParams_def Let_def executions_def)


lemma run_worker_trace:
  "constructed (run_worker g w) = []"
  "executions (run_worker g w) = (if g then [Call_RunThreadWithOpenGLContext w] else [Call_Start w, Call_Wait w])"
  "started (run_worker g w) = Some w"
  "New_QApplication \<notin> set (run_worker g w)"
  by (simp_all add: run_worker_def executions_def)

lemma new_app_trace:
  "constructed (new_app g) = []"
  "executions (new_app g) = []"
  "started (new_app g) = None"
  "New_QApplication \<in> set (new_app g) \<longleftrightarrow> g"
  by (simp_all add: new_app_def executions_def)

lemmas trace_simps =
  constructed_append started_append executions_append executions_Cons executions_Nil
  VerifyCameraParams_trace run_worker_trace new_app_trace

lemmas entry_defs =
  RunFeatureExtractor_def RunFeatureImporter_def RunExhaustiveMatcher_def
  RunMatchesImporter_def RunSequentialMatcher_def RunSpatialMatcher_def
  RunTransitiveMatcher_def RunVocabTreeMatcher_def

lemma VerifyCameraParams_no_context_path:
  "Call_RunThreadWithOpenGLContext w \<notin> set (snd (VerifyCameraParams env m p))"
  by (simp add: VerifyCameraParams_def Let_def)

text \<open>Facts about the sample environment and the sample options.\<close>

lemma sample_facts:
  "\<not> empty_list_file sample_env None"
  "\<not> empty_list_file sample_env (Some ''images.txt'')"
  "empty_list_file sample_env (Some ''empty.txt'')"
  "camera_config_ok sample_env sample_options"
  "\<not> camera_config_ok sample_env (with_camera ''FISHEYE'' '''' sample_options)"
  "kUseOpenGL sample_env"
  "extraction_use_gpu (sift_extraction sample_options)"
  "matching_use_gpu (sift_matching sample_options)"
  by (simp_all add: empty_list_file_def camera_config_ok_def default_option_def sample_env_def
      sample_options_def with_camera_def sample_CSVToVector_def)

subsection \<open>Exit status\<close>

text \<open>
  Claim C1, as amended. The exit status of every entry point is decided before any
  worker runs: the two image entry points return 0 when a list file was named and is
  empty (whatever the camera settings) or when the camera settings pass
  \<^verbatim>\<open>VerifyCameraParams\<close>, and 1 otherwise; the generic matches importer returns 0
  when the match type is one of \<open>pairs\<close>, \<open>raw\<close>, \<open>inliers\<close>, and 1 otherwise; the five
  remaining matchers always run their worker and return 0. A run that has started a
  worker returns 0 whatever terminal state \<open>t\<close> the worker reached.
\<close>

theorem exit_status_of_entry_points:
  "fst (RunFeatureExtractor env options ilp) =
     (if empty_list_file env ilp \<or> camera_config_ok env options then 0 else 1)
   \<and> fst (RunFeatureImporter env options ip ilp) =
     (if empty_list_file env ilp \<or> camera_config_ok env options then 0 else 1)
   \<and> fst (RunMatchesImporter env options mlp mt) =
     (if default_option ''pairs'' mt \<in> {''pairs'', ''raw'', ''inliers''} then 0 else 1)
   \<and> fst (RunExhaustiveMatcher env options) = 0
   \<and> fst (RunSequentialMatcher env options) = 0
   \<and> fst (RunSpatialMatcher env options) = 0
   \<and> fst (RunTransitiveMatcher env options) = 0
   \<and> fst (RunVocabTreeMatcher env options) = 0
   \<and> (worker_terminal env (snd (RunFeatureExtractor env options ilp)) = Some t
        \<longrightarrow> fst (RunFeatureExtractor env options ilp) = 0)
   \<and> (worker_terminal env (snd (RunFeatureImporter env options ip ilp)) = Some t
        \<longrightarrow> fst (RunFeatureImporter env options ip ilp) = 0)
   \<and> (worker_terminal env (snd (RunMatchesImporter env options mlp mt)) = Some t
        \<longrightarrow> fst (RunMatchesImporter env options mlp mt) = 0)
   \<and> worker_terminal env (snd (RunExhaustiveMatcher env options)) \<noteq> None
   \<and> worker_terminal env (snd (RunSequentialMatcher env options)) \<noteq> None
   \<and> worker_terminal env (snd (RunSpatialMatcher env options)) \<noteq> None
   \<and> worker_terminal env (snd (RunTransitiveMatcher env options)) \<noteq> None
   \<and> worker_terminal env (snd (RunVocabTreeMatcher env options)) \<noteq> None"
  by (simp add: entry_defs Let_def EXIT_SUCCESS_def EXIT_FAILURE_def empty_list_file_def
      camera_config_ok_def VerifyCameraParams_result worker_terminal_def trace_simps)

text \<open>
  The amended statement at concrete runs: a feature extractor whose worker fails
  returns 0; an unknown camera model and an unknown match type return 1.
\<close>

theorem exit_status_witness:
  "worker_terminal (sample_env\<lparr>worker_outcome := \<lambda>w. Failed\<rparr>)
     (snd (RunFeatureExtractor (sample_env\<lparr>worker_outcome := \<lambda>w. Failed\<rparr>) sample_options None))
     = Some Failed
   \<and> fst (RunFeatureExtractor (sample_env\<lparr>worker_outcome := \<lambda>w. Failed\<rparr>) sample_options None) = 0
   \<and> \<not> empty_list_file sample_env (Some ''images.txt'')
   \<and> \<not> camera_config_ok sample_env (with_camera ''FISHEYE'' '''' sample_options)
   \<and> fst (RunFeatureImporter sample_env (with_camera ''FISHEYE'' '''' sample_options)
            ''features'' (Some ''images.txt'')) = 1
   \<and> fst (RunMatchesImporter sample_env (with_camera ''FISHEYE'' '''' sample_options)
            ''matches.txt'' (Some ''verified'')) = 1"
proof -
  let ?env = "sample_env\<lparr>worker_outcome := \<lambda>w. Failed\<rparr>"
  have h: "worker_terminal ?env (snd (RunFeatureExtractor ?env sample_options None)) = Some Failed"
    by (simp add: RunFeatureExtractor_def Let_def worker_terminal_def sample_env_def
        sample_options_def new_app_def run_worker_def default_option_def
        VerifyCameraParams_def sample_CSVToVector_def)
  have a: "\<not> empty_list_file sample_env (Some ''images.txt'')"
    by (simp add: empty_list_file_def default_option_def sample_env_def)
  have b: "\<not> camera_config_ok sample_env (with_camera ''FISHEYE'' '''' sample_options)"
    by (simp add: camera_config_ok_def with_camera_def sample_options_def sample_env_def)
  have c: "default_option ''pairs'' (Some ''verified'') \<notin> {''pairs'', ''raw'', ''inliers''}"
    by (simp add: default_option_def)
  from exit_status_of_entry_points
    [of ?env sample_options None "''features''" "''matches.txt''" "Some ''verified''" Failed] h
  have "fst (RunFeatureExtractor ?env sample_options None) = 0"
    by blast
  moreover from exit_status_of_entry_points
    [of sample_env "with_camera ''FISHEYE'' '''' sample_options" "Some ''images.txt''"
        "''features''" "''matches.txt''" "Some ''verified''" Failed] a b c
  have "fst (RunFeatureImporter sample_env (with_camera ''FISHEYE'' '''' sample_options)
            ''features'' (Some ''images.txt'')) = 1
        \<and> fst (RunMatchesImporter sample_env (with_camera ''FISHEYE'' '''' sample_options)
            ''matches.txt'' (Some ''verified'')) = 1"
    by simp
  ultimately show ?thesis using h a b by blast
qed

text \<open>
  Claim C1 as stated fails: the exhaustive matcher returns 0 although its worker
  reached the state \<open>Failed\<close>.
\<close>

theorem exit_status_counterexample:
  "\<not> (worker_terminal (sample_env\<lparr>worker_outcome := \<lambda>w. Failed\<rparr>)
          (snd (RunExhaustiveMatcher (sample_env\<lparr>worker_outcome := \<lambda>w. Failed\<rparr>) sample_options))
        = Some Failed
      \<longrightarrow> fst (RunExhaustiveMatcher (sample_env\<lparr>worker_outcome := \<lambda>w. Failed\<rparr>) sample_options) \<noteq> 0)"
  by (simp add: RunExhaustiveMatcher_def Let_def worker_terminal_def sample_env_def
      sample_options_def new_app_def run_worker_def EXIT_SUCCESS_def)

subsection \<open>The generic matches importer\<close>

text \<open>
  Claim C2. In the generic matches importer the match type \<open>pairs\<close> constructs an
  \<^verbatim>\<open>ImagePairsFeatureMatcher\<close>, \<open>raw\<close> a \<^verbatim>\<open>FeaturePairsFeatureMatcher\<close> with
  \<^verbatim>\<open>verify_matches\<close> set, \<open>inliers\<close> a \<^verbatim>\<open>FeaturePairsFeatureMatcher\<close> with
  \<^verbatim>\<open>verify_matches\<close> cleared; any other string ends the run with \<^verbatim>\<open>EXIT_FAILURE\<close>, after
  the error message and with no worker constructed or executed.
\<close>

theorem match_type_selects_variant:
  "(mt = ''pairs'' \<longrightarrow>
      fst (RunMatchesImporter env options mlp (Some mt)) = EXIT_SUCCESS \<and>
      constructed (snd (RunMatchesImporter env options mlp (Some mt))) =
        [ImagePairsFeatureMatcher \<lparr>match_list_path = mlp\<rparr>
           (sift_matching options) (om_database_path options)])
   \<and> (mt = ''raw'' \<longrightarrow>
      fst (RunMatchesImporter env options mlp (Some mt)) = EXIT_SUCCESS \<and>
      constructed (snd (RunMatchesImporter env options mlp (Some mt))) =
        [FeaturePairsFeatureMatcher \<lparr>feature_match_list_path = mlp, verify_matches = True\<rparr>
           (sift_matching options) (om_database_path options)])
   \<and> (mt = ''inliers'' \<longrightarrow>
      fst (RunMatchesImporter env options mlp (Some mt)) = EXIT_SUCCESS \<and>
      constructed (snd (RunMatchesImporter env options mlp (Some mt))) =
        [FeaturePairsFeatureMatcher \<lparr>feature_match_list_path = mlp, verify_matches = False\<rparr>
           (sift_matching options) (om_database_path options)])
   \<and> (mt \<noteq> ''pairs'' \<and> mt \<noteq> ''raw'' \<and> mt \<noteq> ''inliers'' \<longrightarrow>
      fst (RunMatchesImporter env options mlp (Some mt)) = EXIT_FAILURE \<and>
      fst (RunMatchesImporter env options mlp (Some mt)) \<noteq> 0 \<and>
      Cerr ''ERROR: Invalid `match_type`'' \<in> set (snd (RunMatchesImporter env options mlp (Some mt))) \<and>
      constructed (snd (RunMatchesImporter env options mlp (Some mt))) = [] \<and>
      executions (snd (RunMatchesImporter env options mlp (Some mt))) = [])"
  by (simp add: RunMatchesImporter_def Let_def default_option_def EXIT_FAILURE_def
      trace_simps)

text \<open>The four cases at the sample options; the match type is compared case-sensitively.\<close>

theorem match_type_selects_variant_witness:
  "constructed (snd (RunMatchesImporter sample_env sample_options ''matches.txt'' (Some ''pairs''))) =
     [ImagePairsFeatureMatcher \<lparr>match_list_path = ''matches.txt''\<rparr>
        \<lparr>matching_use_gpu = True\<rparr> ''db.sqlite'']
   \<and> constructed (snd (RunMatchesImporter sample_env sample_options ''matches.txt'' (Some ''raw''))) =
     [FeaturePairsFeatureMatcher
        \<lparr>feature_match_list_path = ''matches.txt'', verify_matches = True\<rparr>
        \<lparr>matching_use_gpu = True\<rparr> ''db.sqlite'']
   \<and> constructed (snd (RunMatchesImporter sample_env sample_options ''matches.txt'' (Some ''inliers''))) =
     [FeaturePairsFeatureMatcher
        \<lparr>feature_match_list_path = ''matches.txt'', verify_matches = False\<rparr>
        \<lparr>matching_use_gpu = True\<rparr> ''db.sqlite'']
   \<and> fst (RunMatchesImporter sample_env sample_options ''matches.txt'' (Some ''Pairs'')) = 1
   \<and> constructed (snd (RunMatchesImporter sample_env sample_options ''matches.txt'' (Some ''Pairs''))) = []"
proof -
  have other: "''Pairs'' \<noteq> ''pairs'' \<and> ''Pairs'' \<noteq> ''raw'' \<and> ''Pairs'' \<noteq> ''inliers''"
    by simp
  have opts: "sift_matching sample_options = \<lparr>matching_use_gpu = True\<rparr>"
    "om_database_path sample_options = ''db.sqlite''"
    by (simp_all add: sample_options_def)
  show ?thesis
    using match_type_selects_variant [of "''pairs''" sample_env sample_options "''matches.txt''"]
      match_type_selects_variant [of "''raw''" sample_env sample_options "''matches.txt''"]
      match_type_selects_variant [of "''inliers''" sample_env sample_options "''matches.txt''"]
      match_type_selects_variant [of "''Pairs''" sample_env sample_options "''matches.txt''"]
      other
    by (simp add: opts EXIT_FAILURE_def)
qed

text \<open>
  Claim C10. When the option \<^verbatim>\<open>match_type\<close> is not supplied, the variable keeps its
  initial value \<open>pairs\<close>: the run is the run for \<open>pairs\<close>, it succeeds and constructs
  the \<^verbatim>\<open>ImagePairsFeatureMatcher\<close>.
\<close>

theorem default_match_type_is_pairs:
  "default_option ''pairs'' None = ''pairs''
   \<and> RunMatchesImporter env options mlp None = RunMatchesImporter env options mlp (Some ''pairs'')
   \<and> fst (RunMatchesImporter env options mlp None) = EXIT_SUCCESS
   \<and> constructed (snd (RunMatchesImporter env options mlp None)) =
        [ImagePairsFeatureMatcher \<lparr>match_list_path = mlp\<rparr>
           (sift_matching options) (om_database_path options)]"
  by (simp add: RunMatchesImporter_def Let_def default_option_def trace_simps)

text \<open>The default at the sample options.\<close>

theorem default_match_type_is_pairs_witness:
  "constructed (snd (RunMatchesImporter sample_env sample_options ''matches.txt'' None)) =
     [ImagePairsFeatureMatcher \<lparr>match_list_path = ''matches.txt''\<rparr>
        \<lparr>matching_use_gpu = True\<rparr> ''db.sqlite'']
   \<and> fst (RunMatchesImporter sample_env sample_options ''matches.txt'' None) = 0"
proof -
  have opts: "sift_matching sample_options = \<lparr>matching_use_gpu = True\<rparr>"
    "om_database_path sample_options = ''db.sqlite''"
    by (simp_all add: sample_options_def)
  from default_match_type_is_pairs [of sample_env sample_options "''matches.txt''"]
  show ?thesis
    unfolding opts EXIT_SUCCESS_def by blast
qed

subsection \<open>Execution paths\<close>

lemma extractor_dispatch:
  "(if empty_list_file env ilp \<or> \<not> camera_config_ok env options
    then runs_nothing (extraction_use_gpu (sift_extraction options) \<and> kUseOpenGL env)
           (snd (RunFeatureExtractor env options ilp))
    else runs_on (extraction_use_gpu (sift_extraction options) \<and> kUseOpenGL env)
           (snd (RunFeatureExtractor env options ilp))
           (SiftFeatureExtractor (reader_options_of env options ilp) (sift_extraction options)))"
  by (simp add: RunFeatureExtractor_def Let_def empty_list_file_def camera_config_ok_def
      reader_options_of_def VerifyCameraParams_result runs_on_def runs_nothing_def
      trace_simps)

lemma matches_importer_dispatch:
  "(if default_option ''pairs'' mt = ''pairs''
    then runs_on (matching_use_gpu (sift_matching options) \<and> kUseOpenGL env)
           (snd (RunMatchesImporter env options mlp mt))
           (ImagePairsFeatureMatcher \<lparr>match_list_path = mlp\<rparr>
              (sift_matching options) (om_database_path options))
    else if default_option ''pairs'' mt = ''raw'' \<or> default_option ''pairs'' mt = ''inliers''
    then runs_on (matching_use_gpu (sift_matching options) \<and> kUseOpenGL env)
           (snd (RunMatchesImporter env options mlp mt))
           (FeaturePairsFeatureMatcher
              \<lparr>feature_match_list_path = mlp,
               verify_matches = (default_option ''pairs'' mt = ''raw'')\<rparr>
              (sift_matching options) (om_database_path options))
    else runs_nothing (matching_use_gpu (sift_matching options) \<and> kUseOpenGL env)
           (snd (RunMatchesImporter env options mlp mt)))"
  by (simp add: RunMatchesImporter_def Let_def runs_on_def runs_nothing_def trace_simps)

lemma matcher_dispatch:
  "runs_on (matching_use_gpu (sift_matching options) \<and> kUseOpenGL env)
     (snd (RunExhaustiveMatcher env options))
     (ExhaustiveFeatureMatcher (exhaustive_matching options) (sift_matching options)
        (om_database_path options))"
  "runs_on (matching_use_gpu (sift_matching options) \<and> kUseOpenGL env)
     (snd (RunSequentialMatcher env options))
     (SequentialFeatureMatcher (sequential_matching options) (sift_matching options)
        (om_database_path options))"
  "runs_on (matching_use_gpu (sift_matching options) \<and> kUseOpenGL env)
     (snd (RunSpatialMatcher env options))
     (SpatialFeatureMatcher (spatial_matching options) (sift_matching options)
        (om_database_path options))"
  "runs_on (matching_use_gpu (sift_matching options) \<and> kUseOpenGL env)
     (snd (RunTransitiveMatcher env options))
     (TransitiveFeatureMatcher (transitive_matching options) (sift_matching options)
        (om_database_path options))"
  "runs_on (matching_use_gpu (sift_matching options) \<and> kUseOpenGL env)
     (snd (RunVocabTreeMatcher env options))
     (VocabTreeFeatureMatcher (vocab_tree_matching options) (sift_matching options)
        (om_database_path options))"
  by (simp_all add: entry_defs Let_def runs_on_def trace_simps)

text \<open>
  Claim C8. Every entry point that can use the GPU (the feature extractor, the generic
  matches importer and the five matchers) executes the worker it constructs through
  \<^verbatim>\<open>RunThreadWithOpenGLContext\<close> exactly when \<^verbatim>\<open>use_gpu\<close> is set and \<^verbatim>\<open>kUseOpenGL\<close>
  holds, and through \<^verbatim>\<open>Start\<close> and \<^verbatim>\<open>Wait\<close> otherwise; when \<^verbatim>\<open>use_gpu && kUseOpenGL\<close> does
  not hold, no \<^verbatim>\<open>QApplication\<close> is created on any path.
\<close>

theorem gpu_dispatch_rule:
  "(if empty_list_file env ilp \<or> \<not> camera_config_ok env options
    then runs_nothing (extraction_use_gpu (sift_extraction options) \<and> kUseOpenGL env)
           (snd (RunFeatureExtractor env options ilp))
    else runs_on (extraction_use_gpu (sift_extraction options) \<and> kUseOpenGL env)
           (snd (RunFeatureExtractor env options ilp))
           (SiftFeatureExtractor (reader_options_of env options ilp) (sift_extraction options)))
   \<and> (if default_option ''pairs'' mt = ''pairs''
      then runs_on (matching_use_gpu (sift_matching options) \<and> kUseOpenGL env)
             (snd (RunMatchesImporter env options mlp mt))
             (ImagePairsFeatureMatcher \<lparr>match_list_path = mlp\<rparr>
                (sift_matching options) (om_database_path options))
      else if default_option ''pairs'' mt = ''raw'' \<or> default_option ''pairs'' mt = ''inliers''
      then runs_on (matching_use_gpu (sift_matching options) \<and> kUseOpenGL env)
             (snd (RunMatchesImporter env options mlp mt))
             (FeaturePairsFeatureMatcher
                \<lparr>feature_match_list_path = mlp,
                 verify_matches = (default_option ''pairs'' mt = ''raw'')\<rparr>
                (sift_matching options) (om_database_path options))
      else runs_nothing (matching_use_gpu (sift_matching options) \<and> kUseOpenGL env)
             (snd (RunMatchesImporter env options mlp mt)))
   \<and> runs_on (matching_use_gpu (sift_matching options) \<and> kUseOpenGL env)
        (snd (RunExhaustiveMatcher env options))
        (ExhaustiveFeatureMatcher (exhaustive_matching options) (sift_matching options)
           (om_database_path options))
   \<and> runs_on (matching_use_gpu (sift_matching options) \<and> kUseOpenGL env)
        (snd (RunSequentialMatcher env options))
        (SequentialFeatureMatcher (sequential_matching options) (sift_matching options)
           (om_database_path options))
   \<and> runs_on (matching_use_gpu (sift_matching options) \<and> kUseOpenGL env)
        (snd (RunSpatialMatcher env options))
        (SpatialFeatureMatcher (spatial_matching options) (sift_matching options)
           (om_database_path options))
   \<and> runs_on (matching_use_gpu (sift_matching options) \<and> kUseOpenGL env)
        (snd (RunTransitiveMatcher env options))
        (TransitiveFeatureMatcher (transitive_matching options) (sift_matching options)
           (om_database_path options))
   \<and> runs_on (matching_use_gpu (sift_matching options) \<and> kUseOpenGL env)
        (snd (RunVocabTreeMatcher env options))
        (VocabTreeFeatureMatcher (vocab_tree_matching options) (sift_matching options)
           (om_database_path options))"
  using extractor_dispatch [of env ilp options] matches_importer_dispatch [of mt options env mlp]
    matcher_dispatch [of options env]
  by blast

text \<open>
  Both paths at the sample options: the extractor on the context-owning path, the
  exhaustive matcher on the direct path of a build without OpenGL.
\<close>

theorem gpu_dispatch_rule_witness:
  "executions (snd (RunFeatureExtractor sample_env sample_options None)) =
     [Call_RunThreadWithOpenGLContext
        (SiftFeatureExtractor (reader_options_of sample_env sample_options None)
           (sift_extraction sample_options))]
   \<and> New_QApplication \<in> set (snd (RunFeatureExtractor sample_env sample_options None))
   \<and> executions (snd (RunExhaustiveMatcher (sample_env\<lparr>kUseOpenGL := False\<rparr>) sample_options)) =
     [Call_Start (ExhaustiveFeatureMatcher (exhaustive_matching sample_options)
                    (sift_matching sample_options) (om_database_path sample_options)),
      Call_Wait (ExhaustiveFeatureMatcher (exhaustive_matching sample_options)
                   (sift_matching sample_options) (om_database_path sample_options))]
   \<and> New_QApplication \<notin> set (snd (RunExhaustiveMatcher (sample_env\<lparr>kUseOpenGL := False\<rparr>) sample_options))
   \<and> runs_nothing True
        (snd (RunMatchesImporter sample_env sample_options ''matches.txt'' (Some ''verified'')))"
proof -
  have other: "default_option ''pairs'' (Some ''verified'') \<noteq> ''pairs''"
    "default_option ''pairs'' (Some ''verified'') \<noteq> ''raw''"
    "default_option ''pairs'' (Some ''verified'') \<noteq> ''inliers''"
    by (simp_all add: default_option_def)
  have off: "\<not> kUseOpenGL (sample_env\<lparr>kUseOpenGL := False\<rparr>)"
    by simp
  from gpu_dispatch_rule [of sample_env None sample_options "Some ''verified''" "''matches.txt''"]
  have "runs_on True (snd (RunFeatureExtractor sample_env sample_options None))
          (SiftFeatureExtractor (reader_options_of sample_env sample_options None)
             (sift_extraction sample_options))
        \<and> runs_nothing True
          (snd (RunMatchesImporter sample_env sample_options ''matches.txt'' (Some ''verified'')))"
    by (simp add: sample_facts other)
  moreover
  from gpu_dispatch_rule [of "sample_env\<lparr>kUseOpenGL := False\<rparr>" None sample_options
      "Some ''verified''" "''matches.txt''"]
  have "runs_on False (snd (RunExhaustiveMatcher (sample_env\<lparr>kUseOpenGL := False\<rparr>) sample_options))
          (ExhaustiveFeatureMatcher (exhaustive_matching sample_options)
             (sift_matching sample_options) (om_database_path sample_options))"
    using off by simp
  ultimately show ?thesis
    by (simp add: runs_on_def)
qed

text \<open>
  Claim C9. The feature importer never creates a \<^verbatim>\<open>QApplication\<close> and never calls
  \<^verbatim>\<open>RunThreadWithOpenGLContext\<close>, whatever the options say about the GPU; the worker it
  constructs is executed by \<^verbatim>\<open>Start\<close> followed by \<^verbatim>\<open>Wait\<close>.
\<close>

theorem importer_runs_directly:
  "New_QApplication \<notin> set (snd (RunFeatureImporter env options ip ilp))
   \<and> (\<forall>w. Call_RunThreadWithOpenGLContext w \<notin> set (snd (RunFeatureImporter env options ip ilp)))
   \<and> constructed (snd (RunFeatureImporter env options ip ilp)) =
       (if empty_list_file env ilp \<or> \<not> camera_config_ok env options then []
        else [FeatureImporter (reader_options_of env options ilp) ip])
   \<and> executions (snd (RunFeatureImporter env options ip ilp)) =
       (if empty_list_file env ilp \<or> \<not> camera_config_ok env options then []
        else [Call_Start (FeatureImporter (reader_options_of env options ilp) ip),
              Call_Wait (FeatureImporter (reader_options_of env options ilp) ip)])"
  by (simp add: RunFeatureImporter_def Let_def empty_list_file_def camera_config_ok_def
      reader_options_of_def VerifyCameraParams_result VerifyCameraParams_no_context_path
      trace_simps)

text \<open>The importer at the sample options, which request the GPU on a build with OpenGL.\<close>

theorem importer_runs_directly_witness:
  "executions (snd (RunFeatureImporter sample_env sample_options ''features'' None)) =
     [Call_Start (FeatureImporter (reader_options_of sample_env sample_options None) ''features''),
      Call_Wait (FeatureImporter (reader_options_of sample_env sample_options None) ''features'')]
   \<and> New_QApplication \<notin> set (snd (RunFeatureImporter sample_env sample_options ''features'' None))
   \<and> extraction_use_gpu (sift_extraction sample_options) \<and> kUseOpenGL sample_env"
  using importer_runs_directly [of sample_env sample_options "''features''" None]
  by (simp add: sample_facts)

subsection \<open>Configuration errors\<close>











subsection \<open>Order of list reading, validation and construction\<close>

lemma extractor_order:
  "precedes is_validation is_construct (snd (RunFeatureExtractor env options ilp))"
  "(\<exists>e\<in>set (snd (RunFeatureExtractor env options ilp)). is_construct e) \<longrightarrow>
     \<not> empty_list_file env ilp \<and>
     fst (VerifyCameraParams env (camera_model (image_reader options))
            (camera_params (image_reader options)))"
  "default_option '''' ilp \<noteq> [] \<longrightarrow>
     precedes is_read is_validation (snd (RunFeatureExtractor env options ilp)) \<and>
     (\<exists>rest. snd (RunFeatureExtractor env options ilp) =
              Call_ReadTextFileLines (default_option '''' ilp) # rest \<and>
            (\<forall>e\<in>set rest. \<not> is_read e))"
  "default_option '''' ilp = [] \<longrightarrow>
     (\<forall>e\<in>set (snd (RunFeatureExtractor env options ilp)). \<not> is_read e)"
  "empty_list_file env ilp \<longrightarrow>
     (\<forall>e\<in>set (snd (RunFeatureExtractor env options ilp)). \<not> is_validation e)"
  by (auto simp add: RunFeatureExtractor_def Let_def empty_list_file_def new_app_def
      run_worker_def VerifyCameraParams_def)

lemma importer_order:
  "precedes is_validation is_construct (snd (RunFeatureImporter env options ip ilp))"
  "(\<exists>e\<in>set (snd (RunFeatureImporter env options ip ilp)). is_construct e) \<longrightarrow>
     \<not> empty_list_file env ilp \<and>
     fst (VerifyCameraParams env (camera_model (image_reader options))
            (camera_params (image_reader options)))"
  "default_option '''' ilp \<noteq> [] \<longrightarrow>
     precedes is_read is_validation (snd (RunFeatureImporter env options ip ilp)) \<and>
     (\<exists>rest. snd (RunFeatureImporter env options ip ilp) =
              Call_ReadTextFileLines (default_option '''' ilp) # rest \<and>
            (\<forall>e\<in>set rest. \<not> is_read e))"
  "default_option '''' ilp = [] \<longrightarrow>
     (\<forall>e\<in>set (snd (RunFeatureImporter env options ip ilp)). \<not> is_read e)"
  "empty_list_file env ilp \<longrightarrow>
     (\<forall>e\<in>set (snd (RunFeatureImporter env options ip ilp)). \<not> is_validation e)"
  by (auto simp add: RunFeatureImporter_def Let_def empty_list_file_def
      VerifyCameraParams_def)

lemma extractor_validates_first:
  "(\<exists>e\<in>set (snd (RunFeatureExtractor env options ilp)). is_construct e) \<longrightarrow>
     (\<exists>pre mid post w.
        snd (RunFeatureExtractor env options ilp) =
          pre @ snd (VerifyCameraParams env (camera_model (image_reader options))
                       (camera_params (image_reader options))) @ mid @ Construct w # post \<and>
        (\<forall>e\<in>set pre. \<not> is_construct e \<and> \<not> is_execution e) \<and>
        (\<forall>e\<in>set mid. \<not> is_validation e \<and> \<not> is_read e \<and> \<not> is_construct e \<and>
                       \<not> is_execution e) \<and>
        (\<forall>e\<in>set post. \<not> is_validation e \<and> \<not> is_read e \<and> \<not> is_construct e))"
proof (cases "empty_list_file env ilp \<or>
    \<not> fst (VerifyCameraParams env (camera_model (image_reader options))
             (camera_params (image_reader options)))")
  case True
  then have "\<forall>e\<in>set (snd (RunFeatureExtractor env options ilp)). \<not> is_construct e"
    using VerifyCameraParams_trace(5) [of env "camera_model (image_reader options)"
        "camera_params (image_reader options)"]
    by (auto simp add: RunFeatureExtractor_def Let_def empty_list_file_def)
  then show ?thesis by blast
next
  case False
  let ?gpu = "extraction_use_gpu (sift_extraction options) \<and> kUseOpenGL env"
  let ?w = "SiftFeatureExtractor (reader_options_of env options ilp) (sift_extraction options)"
  let ?pre = "(if default_option '''' ilp \<noteq> []
               then [Call_ReadTextFileLines (default_option '''' ilp)] else []) @
              Call_ExistsCameraModelWithName (camera_model (image_reader options)) #
              (if \<not> ExistsCameraModelWithName env (camera_model (image_reader options))
               then [Cerr ''ERROR: Camera model does not exist''] else [])"
  from False have "snd (RunFeatureExtractor env options ilp) =
      ?pre @ snd (VerifyCameraParams env (camera_model (image_reader options))
                    (camera_params (image_reader options))) @
      new_app ?gpu @ Construct ?w # run_worker ?gpu ?w"
    by (auto simp add: RunFeatureExtractor_def Let_def empty_list_file_def reader_options_of_def)
  moreover have "\<forall>e\<in>set ?pre. \<not> is_construct e \<and> \<not> is_execution e"
    by auto
  moreover have "\<forall>e\<in>set (new_app ?gpu). \<not> is_validation e \<and> \<not> is_read e \<and>
      \<not> is_construct e \<and> \<not> is_execution e"
    by (simp add: new_app_def)
  moreover have "\<forall>e\<in>set (run_worker ?gpu ?w). \<not> is_validation e \<and> \<not> is_read e \<and>
      \<not> is_construct e"
    by (simp add: run_worker_def)
  ultimately show ?thesis by blast
qed

lemma importer_validates_first:
  "(\<exists>e\<in>set (snd (RunFeatureImporter env options ip ilp)). is_construct e) \<longrightarrow>
     (\<exists>pre mid post w.
        snd (RunFeatureImporter env options ip ilp) =
          pre @ snd (VerifyCameraParams env (camera_model (image_reader options))
                       (camera_params (image_reader options))) @ mid @ Construct w # post \<and>
        (\<forall>e\<in>set pre. \<not> is_construct e \<and> \<not> is_execution e) \<and>
        (\<forall>e\<in>set mid. \<not> is_validation e \<and> \<not> is_read e \<and> \<not> is_construct e \<and>
                       \<not> is_execution e) \<and>
        (\<forall>e\<in>set post. \<not> is_validation e \<and> \<not> is_read e \<and> \<not> is_construct e))"
proof (cases "empty_list_file env ilp \<or>
    \<not> fst (VerifyCameraParams env (camera_model (image_reader options))
             (camera_params (image_reader options)))")
  case True
  then have "\<forall>e\<in>set (snd (RunFeatureImporter env options ip ilp)). \<not> is_construct e"
    using VerifyCameraParams_trace(5) [of env "camera_model (image_reader options)"
        "camera_params (image_reader options)"]
    by (auto simp add: RunFeatureImporter_def Let_def empty_list_file_def)
  then show ?thesis by blast
next
  case False
  let ?w = "FeatureImporter (reader_options_of env options ilp) ip"
  let ?pre = "(if default_option '''' ilp \<noteq> []
               then [Call_ReadTextFileLines (default_option '''' ilp)] else [])"
  from False have "snd (RunFeatureImporter env options ip ilp) =
      ?pre @ snd (VerifyCameraParams env (camera_model (image_reader options))
                    (camera_params (image_reader options))) @
      [] @ Construct ?w # [Call_Start ?w, Call_Wait ?w]"
    by (auto simp add: RunFeatureImporter_def Let_def empty_list_file_def reader_options_of_def)
  moreover have "\<forall>e\<in>set ?pre. \<not> is_construct e \<and> \<not> is_execution e"
    by auto
  moreover have "\<forall>e\<in>set ([] :: 'a event list). \<not> is_validation e \<and> \<not> is_read e \<and>
      \<not> is_construct e \<and> \<not> is_execution e"
    by simp
  moreover have "\<forall>e\<in>set [Call_Start ?w, Call_Wait ?w :: 'a event]. \<not> is_validation e \<and>
      \<not> is_read e \<and> \<not> is_construct e"
    by simp
  ultimately show ?thesis by blast
qed

lemma construct_before_execution:
  "precedes is_construct is_execution (snd (RunFeatureExtractor env options ilp))"
  "precedes is_construct is_execution (snd (RunFeatureImporter env options ip ilp))"
  by (auto simp add: RunFeatureExtractor_def RunFeatureImporter_def Let_def new_app_def
      run_worker_def VerifyCameraParams_def)

text \<open>
  Claim C4, as amended. In the feature extractor and the feature importer the image
  list file, when one is named, is read first: the call of \<^verbatim>\<open>ReadTextFileLines\<close> is the
  first effect of the run, the only read, and precedes every call of the camera
  validation; when the list is empty the run ends there and validates nothing; when no
  list file is named nothing is read. The camera validation comes strictly before the
  construction of the worker: a run that constructs a worker has performed the whole of
  \<^verbatim>\<open>VerifyCameraParams\<close> before the construction, nothing is validated or read after
  it, nothing is constructed or executed before it, and \<^verbatim>\<open>VerifyCameraParams\<close> has
  returned true. The worker is executed only after it has been constructed.
\<close>

theorem validation_order:
  "precedes is_validation is_construct (snd (RunFeatureExtractor env options ilp))
   \<and> precedes is_validation is_construct (snd (RunFeatureImporter env options ip ilp))
   \<and> ((\<exists>e\<in>set (snd (RunFeatureExtractor env options ilp)). is_construct e) \<longrightarrow>
        \<not> empty_list_file env ilp \<and>
        fst (VerifyCameraParams env (camera_model (image_reader options))
               (camera_params (image_reader options))))
   \<and> ((\<exists>e\<in>set (snd (RunFeatureImporter env options ip ilp)). is_construct e) \<longrightarrow>
        \<not> empty_list_file env ilp \<and>
        fst (VerifyCameraParams env (camera_model (image_reader options))
               (camera_params (image_reader options))))
   \<and> (default_option '''' ilp \<noteq> [] \<longrightarrow>
        precedes is_read is_validation (snd (RunFeatureExtractor env options ilp)) \<and>
        (\<exists>rest. snd (RunFeatureExtractor env options ilp) =
                 Call_ReadTextFileLines (default_option '''' ilp) # rest \<and>
               (\<forall>e\<in>set rest. \<not> is_read e)))
   \<and> (default_option '''' ilp \<noteq> [] \<longrightarrow>
        precedes is_read is_validation (snd (RunFeatureImporter env options ip ilp)) \<and>
        (\<exists>rest. snd (RunFeatureImporter env options ip ilp) =
                 Call_ReadTextFileLines (default_option '''' ilp) # rest \<and>
               (\<forall>e\<in>set rest. \<not> is_read e)))
   \<and> (default_option '''' ilp = [] \<longrightarrow>
        (\<forall>e\<in>set (snd (RunFeatureExtractor env options ilp)). \<not> is_read e) \<and>
        (\<forall>e\<in>set (snd (RunFeatureImporter env options ip ilp)). \<not> is_read e))
   \<and> (empty_list_file env ilp \<longrightarrow>
        (\<forall>e\<in>set (snd (RunFeatureExtractor env options ilp)). \<not> is_validation e) \<and>
        (\<forall>e\<in>set (snd (RunFeatureImporter env options ip ilp)). \<not> is_validation e))
   \<and> ((\<exists>e\<in>set (snd (RunFeatureExtractor env options ilp)). is_construct e) \<longrightarrow>
        (\<exists>pre mid post w.
           snd (RunFeatureExtractor env options ilp) =
             pre @ snd (VerifyCameraParams env (camera_model (image_reader options))
                          (camera_params (image_reader options))) @ mid @ Construct w # post \<and>
           (\<forall>e\<in>set pre. \<not> is_construct e \<and> \<not> is_execution e) \<and>
           (\<forall>e\<in>set mid. \<not> is_validation e \<and> \<not> is_read e \<and> \<not> is_construct e \<and>
                          \<not> is_execution e) \<and>
           (\<forall>e\<in>set post. \<not> is_validation e \<and> \<not> is_read e \<and> \<not> is_construct e)))
   \<and> ((\<exists>e\<in>set (snd (RunFeatureImporter env options ip ilp)). is_construct e) \<longrightarrow>
        (\<exists>pre mid post w.
           snd (RunFeatureImporter env options ip ilp) =
             pre @ snd (VerifyCameraParams env (camera_model (image_reader options))
                          (camera_params (image_reader options))) @ mid @ Construct w # post \<and>
           (\<forall>e\<in>set pre. \<not> is_construct e \<and> \<not> is_execution e) \<and>
           (\<forall>e\<in>set mid. \<not> is_validation e \<and> \<not> is_read e \<and> \<not> is_construct e \<and>
                          \<not> is_execution e) \<and>
           (\<forall>e\<in>set post. \<not> is_validation e \<and> \<not> is_read e \<and> \<not> is_construct e)))
   \<and> precedes is_construct is_execution (snd (RunFeatureExtractor env options ilp))
   \<and> precedes is_construct is_execution (snd (RunFeatureImporter env options ip ilp))"
proof -
  note order =
    extractor_order [where env = env and options = options and ilp = ilp]
    importer_order [where env = env and options = options and ip = ip and ilp = ilp]
  note split =
    extractor_validates_first [of env options ilp]
    importer_validates_first [of env options ip ilp]
  note exec =
    construct_before_execution(1) [of env options ilp]
    construct_before_execution(2) [of env options ip ilp]
  have unread: "default_option '''' ilp = [] \<longrightarrow>
        (\<forall>e\<in>set (snd (RunFeatureExtractor env options ilp)). \<not> is_read e) \<and>
        (\<forall>e\<in>set (snd (RunFeatureImporter env options ip ilp)). \<not> is_read e)"
    using order by blast
  have unvalidated: "empty_list_file env ilp \<longrightarrow>
        (\<forall>e\<in>set (snd (RunFeatureExtractor env options ilp)). \<not> is_validation e) \<and>
        (\<forall>e\<in>set (snd (RunFeatureImporter env options ip ilp)). \<not> is_validation e)"
    using order by blast
  show ?thesis
    by (intro conjI order split exec unread unvalidated)
qed

text \<open>
  The order at the sample options with a list file of two images, and the early return
  of the importer on an empty list file.
\<close>

theorem validation_order_witness:
  "default_option '''' (Some ''images.txt'') \<noteq> []
   \<and> precedes is_read is_validation
       (snd (RunFeatureExtractor sample_env sample_options (Some ''images.txt'')))
   \<and> precedes is_validation is_construct
       (snd (RunFeatureExtractor sample_env sample_options (Some ''images.txt'')))
   \<and> (\<exists>e\<in>set (snd (RunFeatureExtractor sample_env sample_options (Some ''images.txt''))).
         is_construct e)
   \<and> fst (VerifyCameraParams sample_env (camera_model (image_reader sample_options))
            (camera_params (image_reader sample_options)))
   \<and> empty_list_file sample_env (Some ''empty.txt'')
   \<and> \<not> (\<exists>e\<in>set (snd (RunFeatureImporter sample_env sample_options ''features''
                          (Some ''empty.txt''))). is_validation e)"
proof -
  have named: "default_option '''' (Some ''images.txt'') \<noteq> []"
    by (simp add: default_option_def)
  have built: "\<exists>e\<in>set (snd (RunFeatureExtractor sample_env sample_options (Some ''images.txt''))).
         is_construct e"
    by (simp add: RunFeatureExtractor_def Let_def default_option_def sample_env_def
        sample_options_def VerifyCameraParams_def sample_CSVToVector_def new_app_def
        run_worker_def)
  from validation_order [of sample_env sample_options "Some ''images.txt''" "''features''"]
    named built
  have "precedes is_read is_validation
          (snd (RunFeatureExtractor sample_env sample_options (Some ''images.txt'')))
        \<and> precedes is_validation is_construct
          (snd (RunFeatureExtractor sample_env sample_options (Some ''images.txt'')))
        \<and> fst (VerifyCameraParams sample_env (camera_model (image_reader sample_options))
            (camera_params (image_reader sample_options)))"
    by blast
  moreover
  from validation_order [of sample_env sample_options "Some ''empty.txt''" "''features''"]
    sample_facts(3)
  have "\<not> (\<exists>e\<in>set (snd (RunFeatureImporter sample_env sample_options ''features''
                          (Some ''empty.txt''))). is_validation e)"
    by blast
  ultimately show ?thesis
    using named built sample_facts(3) by blast
qed

text \<open>
  Claim C4 as stated fails: with a list file named, the extractor reads the file before
  it has validated anything, here with a camera model that the validation then rejects.
\<close>

theorem validation_order_counterexample:
  "\<not> precedes is_validation is_read
       (snd (RunFeatureExtractor sample_env (with_camera ''FISHEYE'' '''' sample_options)
              (Some ''images.txt'')))"
  by (simp add: RunFeatureExtractor_def Let_def default_option_def sample_env_def)

subsection \<open>Camera validation\<close>

text \<open>
  Claim C5, as amended. For a camera model name that the registry does not know,
  \<^verbatim>\<open>VerifyCameraParams\<close> reports the error and returns false, and neither the extractor
  nor the importer constructs a worker. Both return \<^verbatim>\<open>EXIT_FAILURE\<close> after the report,
  unless a list file was named and is empty: then the run has returned
  \<^verbatim>\<open>EXIT_SUCCESS\<close> before the check.
\<close>

theorem unknown_camera_model:
  assumes "\<not> ExistsCameraModelWithName env (camera_model (image_reader options))"
  shows "VerifyCameraParams env (camera_model (image_reader options)) p =
           (False, [Call_ExistsCameraModelWithName (camera_model (image_reader options)),
                    Cerr ''ERROR: Camera model does not exist''])
    \<and> constructed (snd (RunFeatureExtractor env options ilp)) = []
    \<and> constructed (snd (RunFeatureImporter env options ip ilp)) = []
    \<and> (if empty_list_file env ilp
       then fst (RunFeatureExtractor env options ilp) = EXIT_SUCCESS \<and>
            fst (RunFeatureImporter env options ip ilp) = EXIT_SUCCESS
       else fst (RunFeatureExtractor env options ilp) = EXIT_FAILURE \<and>
            fst (RunFeatureImporter env options ip ilp) = EXIT_FAILURE \<and>
            Cerr ''ERROR: Camera model does not exist''
              \<in> set (snd (RunFeatureExtractor env options ilp)) \<and>
            Cerr ''ERROR: Camera model does not exist''
              \<in> set (snd (RunFeatureImporter env options ip ilp)))"
  using assms
  by (simp add: RunFeatureExtractor_def RunFeatureImporter_def Let_def empty_list_file_def
      VerifyCameraParams_def)

text \<open>An unknown model at the sample options, with no list file named.\<close>

theorem unknown_camera_model_witness:
  "\<not> ExistsCameraModelWithName sample_env
       (camera_model (image_reader (with_camera ''FISHEYE'' '''' sample_options)))
   \<and> \<not> empty_list_file sample_env None
   \<and> fst (RunFeatureExtractor sample_env (with_camera ''FISHEYE'' '''' sample_options) None) = 1
   \<and> fst (RunFeatureImporter sample_env (with_camera ''FISHEYE'' '''' sample_options)
            ''features'' None) = 1
   \<and> constructed (snd (RunFeatureExtractor sample_env
        (with_camera ''FISHEYE'' '''' sample_options) None)) = []"
proof -
  have absent: "\<not> ExistsCameraModelWithName sample_env
       (camera_model (image_reader (with_camera ''FISHEYE'' '''' sample_options)))"
    by (simp add: with_camera_def sample_options_def sample_env_def)
  from unknown_camera_model [OF absent, of "''''" None "''features''"] sample_facts(1)
  show ?thesis
    using absent by (simp add: EXIT_FAILURE_def)
qed

text \<open>
  Claim C5 as stated fails: with an unknown camera model and an empty list file the
  extractor returns 0.
\<close>

theorem unknown_camera_model_counterexample:
  "\<not> (\<not> ExistsCameraModelWithName sample_env
          (camera_model (image_reader (with_camera ''FISHEYE'' '''' sample_options)))
       \<longrightarrow> fst (RunFeatureExtractor sample_env (with_camera ''FISHEYE'' '''' sample_options)
                 (Some ''empty.txt'')) \<noteq> 0)"
  by (simp add: RunFeatureExtractor_def Let_def default_option_def sample_env_def
      with_camera_def sample_options_def EXIT_SUCCESS_def)

text \<open>
  Claim C6, as amended. For a model the registry knows, \<^verbatim>\<open>VerifyCameraParams\<close> decides on
  the parsed vector, not on the string: it accepts every parameter string that parses
  to an empty vector (the empty string among them when the parser yields no values for
  it) without consulting the registry's validator, accepts a non-empty vector that the
  validator accepts, and rejects a non-empty vector that the validator rejects, with
  the error message; the extractor and the importer then construct no worker and
  return \<^verbatim>\<open>EXIT_FAILURE\<close> unless the run has ended on an empty list file before.
\<close>

theorem camera_params_validation:
  assumes "camera_model (image_reader options) = m"
    and "camera_params (image_reader options) = p"
    and "ExistsCameraModelWithName env m"
  shows "(CSVToVector env p = [] \<longrightarrow> fst (VerifyCameraParams env m p))
    \<and> (CSVToVector env p \<noteq> [] \<and>
        CameraModelVerifyParams env (CameraModelNameToId env m) (CSVToVector env p) \<longrightarrow>
        fst (VerifyCameraParams env m p))
    \<and> (CSVToVector env p \<noteq> [] \<and>
        \<not> CameraModelVerifyParams env (CameraModelNameToId env m) (CSVToVector env p) \<longrightarrow>
        \<not> fst (VerifyCameraParams env m p) \<and>
        Cerr ''ERROR: Invalid camera parameters'' \<in> set (snd (VerifyCameraParams env m p)) \<and>
        constructed (snd (RunFeatureExtractor env options ilp)) = [] \<and>
        constructed (snd (RunFeatureImporter env options ip ilp)) = [] \<and>
        (\<not> empty_list_file env ilp \<longrightarrow>
           fst (RunFeatureExtractor env options ilp) = EXIT_FAILURE \<and>
           fst (RunFeatureImporter env options ip ilp) = EXIT_FAILURE))"
  using assms
  by (simp add: RunFeatureExtractor_def RunFeatureImporter_def Let_def empty_list_file_def
      VerifyCameraParams_def)

text \<open>
  The sample registry: the empty string passes for the four-parameter model, three
  values fail for it and pass for the three-parameter model.
\<close>

theorem camera_params_validation_witness:
  "CSVToVector sample_env '''' = []
   \<and> fst (VerifyCameraParams sample_env ''PINHOLE'' '''')
   \<and> CSVToVector sample_env ''600,320,240'' = [600, 320, 240]
   \<and> \<not> CameraModelVerifyParams sample_env (CameraModelNameToId sample_env ''PINHOLE'')
         [600, 320, 240]
   \<and> \<not> fst (VerifyCameraParams sample_env ''PINHOLE'' ''600,320,240'')
   \<and> fst (RunFeatureExtractor sample_env (with_camera ''PINHOLE'' ''600,320,240'' sample_options)
            None) = 1
   \<and> CameraModelVerifyParams sample_env (CameraModelNameToId sample_env ''SIMPLE_PINHOLE'')
         [600, 320, 240]
   \<and> fst (VerifyCameraParams sample_env ''SIMPLE_PINHOLE'' ''600,320,240'')"
proof -
  have parse: "CSVToVector sample_env '''' = []"
    "CSVToVector sample_env ''600,320,240'' = [600, 320, 240]"
    by (simp_all add: sample_env_def sample_CSVToVector_def is_digit_def number_of_def)
  have registry: "ExistsCameraModelWithName sample_env ''PINHOLE''"
    "ExistsCameraModelWithName sample_env ''SIMPLE_PINHOLE''"
    "\<not> CameraModelVerifyParams sample_env (CameraModelNameToId sample_env ''PINHOLE'')
         [600, 320, 240]"
    "CameraModelVerifyParams sample_env (CameraModelNameToId sample_env ''SIMPLE_PINHOLE'')
         [600, 320, 240]"
    by (simp_all add: sample_env_def)
  have opts: "camera_model (image_reader (with_camera m p sample_options)) = m"
    "camera_params (image_reader (with_camera m p sample_options)) = p" for m p
    by (simp_all add: with_camera_def)
  from camera_params_validation [OF opts(1) opts(2) registry(1), of "''''" None "''features''"]
    parse(1)
  have a: "fst (VerifyCameraParams sample_env ''PINHOLE'' '''')"
    by simp
  from camera_params_validation
    [OF opts(1) opts(2) registry(1), of "''600,320,240''" None "''features''"]
    parse(2) registry(3) sample_facts(1)
  have b: "\<not> fst (VerifyCameraParams sample_env ''PINHOLE'' ''600,320,240'')
      \<and> fst (RunFeatureExtractor sample_env
               (with_camera ''PINHOLE'' ''600,320,240'' sample_options) None) = 1"
    by (simp add: EXIT_FAILURE_def)
  from camera_params_validation
    [OF opts(1) opts(2) registry(2), of "''600,320,240''" None "''features''"]
    parse(2) registry(4)
  have c: "fst (VerifyCameraParams sample_env ''SIMPLE_PINHOLE'' ''600,320,240'')"
    by simp
  show ?thesis
    using a b c parse registry(3,4) by simp
qed

text \<open>
  Claim C6 as stated fails: the string of a single comma is not empty and parses to an
  empty vector, which does not have the four values the model requires, and is accepted.
\<close>

theorem camera_params_validation_counterexample:
  "\<not> ('','' \<noteq> '''' \<and>
       \<not> CameraModelVerifyParams sample_env (CameraModelNameToId sample_env ''PINHOLE'')
           (CSVToVector sample_env '','')
       \<longrightarrow> \<not> fst (VerifyCameraParams sample_env ''PINHOLE'' '',''))"
  by (simp add: VerifyCameraParams_def Let_def sample_env_def sample_CSVToVector_def)

subsection \<open>The empty image list\<close>

lemma empty_list_early_return:
  "empty_list_file env ilp \<longrightarrow>
      RunFeatureExtractor env options ilp =
        (EXIT_SUCCESS, [Call_ReadTextFileLines (default_option '''' ilp)]) \<and>
      RunFeatureImporter env options ip ilp =
        (EXIT_SUCCESS, [Call_ReadTextFileLines (default_option '''' ilp)]) \<and>
      fst (RunFeatureExtractor env options ilp) = 0 \<and>
      fst (RunFeatureImporter env options ip ilp) = 0 \<and>
      constructed (snd (RunFeatureExtractor env options ilp)) = [] \<and>
      constructed (snd (RunFeatureImporter env options ip ilp)) = [] \<and>
      executions (snd (RunFeatureExtractor env options ilp)) = [] \<and>
      executions (snd (RunFeatureImporter env options ip ilp)) = [] \<and>
      New_QApplication \<notin> set (snd (RunFeatureExtractor env options ilp)) \<and>
      New_QApplication \<notin> set (snd (RunFeatureImporter env options ip ilp))"
  by (simp add: RunFeatureExtractor_def RunFeatureImporter_def Let_def empty_list_file_def
      EXIT_SUCCESS_def executions_def)

lemma scan_independent:
  "RunFeatureExtractor (env\<lparr>GetRecursiveFileList := scan\<rparr>) options ilp =
     RunFeatureExtractor env options ilp"
  "RunFeatureImporter (env\<lparr>GetRecursiveFileList := scan\<rparr>) options ip ilp =
     RunFeatureImporter env options ip ilp"
  by (simp_all add: RunFeatureExtractor_def RunFeatureImporter_def Let_def
      VerifyCameraParams_def)

lemma no_list_file_runs:
  "default_option '''' ilp = [] \<and> camera_config_ok env options \<longrightarrow>
       fst (RunFeatureExtractor env options ilp) = 0 \<and>
       constructed (snd (RunFeatureExtractor env options ilp)) =
         [SiftFeatureExtractor (reader_options_of env options ilp) (sift_extraction options)] \<and>
       executions (snd (RunFeatureExtractor env options ilp)) =
         (if extraction_use_gpu (sift_extraction options) \<and> kUseOpenGL env
          then [Call_RunThreadWithOpenGLContext
                  (SiftFeatureExtractor (reader_options_of env options ilp)
                     (sift_extraction options))]
          else [Call_Start (SiftFeatureExtractor (reader_options_of env options ilp)
                              (sift_extraction options)),
                Call_Wait (SiftFeatureExtractor (reader_options_of env options ilp)
                             (sift_extraction options))]) \<and>
       (New_QApplication \<in> set (snd (RunFeatureExtractor env options ilp)) \<longleftrightarrow>
          extraction_use_gpu (sift_extraction options) \<and> kUseOpenGL env) \<and>
       fst (RunFeatureImporter env options ip ilp) = 0 \<and>
       constructed (snd (RunFeatureImporter env options ip ilp)) =
         [FeatureImporter (reader_options_of env options ilp) ip] \<and>
       executions (snd (RunFeatureImporter env options ip ilp)) =
         [Call_Start (FeatureImporter (reader_options_of env options ilp) ip),
          Call_Wait (FeatureImporter (reader_options_of env options ilp) ip)] \<and>
       New_QApplication \<notin> set (snd (RunFeatureImporter env options ip ilp))"
  by (simp add: RunFeatureExtractor_def RunFeatureImporter_def Let_def
      camera_config_ok_def reader_options_of_def VerifyCameraParams_result EXIT_SUCCESS_def
      trace_simps)

text \<open>
  Claim C7, as amended. When a list file is named and has no lines, the feature
  extractor and the feature importer return \<^verbatim>\<open>EXIT_SUCCESS\<close> right after reading it:
  no worker is constructed or executed and no \<^verbatim>\<open>QApplication\<close> is created. The entry
  points scan no directory and their runs do not depend on what a scan would find: with
  no list file named and camera settings that pass, the extractor constructs its worker
  and executes it, after creating a \<^verbatim>\<open>QApplication\<close> exactly when
  \<^verbatim>\<open>use_gpu && kUseOpenGL\<close> holds, and the importer constructs its worker and executes
  it by \<^verbatim>\<open>Start\<close> and \<^verbatim>\<open>Wait\<close> without any \<^verbatim>\<open>QApplication\<close>; both return
  \<^verbatim>\<open>EXIT_SUCCESS\<close>.
\<close>

theorem empty_list_file_is_no_op:
  "(empty_list_file env ilp \<longrightarrow>
      RunFeatureExtractor env options ilp =
        (EXIT_SUCCESS, [Call_ReadTextFileLines (default_option '''' ilp)]) \<and>
      RunFeatureImporter env options ip ilp =
        (EXIT_SUCCESS, [Call_ReadTextFileLines (default_option '''' ilp)]) \<and>
      fst (RunFeatureExtractor env options ilp) = 0 \<and>
      fst (RunFeatureImporter env options ip ilp) = 0 \<and>
      constructed (snd (RunFeatureExtractor env options ilp)) = [] \<and>
      constructed (snd (RunFeatureImporter env options ip ilp)) = [] \<and>
      executions (snd (RunFeatureExtractor env options ilp)) = [] \<and>
      executions (snd (RunFeatureImporter env options ip ilp)) = [] \<and>
      New_QApplication \<notin> set (snd (RunFeatureExtractor env options ilp)) \<and>
      New_QApplication \<notin> set (snd (RunFeatureImporter env options ip ilp)))
   \<and> RunFeatureExtractor (env\<lparr>GetRecursiveFileList := scan\<rparr>) options ilp =
       RunFeatureExtractor env options ilp
   \<and> RunFeatureImporter (env\<lparr>GetRecursiveFileList := scan\<rparr>) options ip ilp =
       RunFeatureImporter env options ip ilp
   \<and> (default_option '''' ilp = [] \<and> camera_config_ok env options \<longrightarrow>
       fst (RunFeatureExtractor env options ilp) = 0 \<and>
       constructed (snd (RunFeatureExtractor env options ilp)) =
         [SiftFeatureExtractor (reader_options_of env options ilp) (sift_extraction options)] \<and>
       executions (snd (RunFeatureExtractor env options ilp)) =
         (if extraction_use_gpu (sift_extraction options) \<and> kUseOpenGL env
          then [Call_RunThreadWithOpenGLContext
                  (SiftFeatureExtractor (reader_options_of env options ilp)
                     (sift_extraction options))]
          else [Call_Start (SiftFeatureExtractor (reader_options_of env options ilp)
                              (sift_extraction options)),
                Call_Wait (SiftFeatureExtractor (reader_options_of env options ilp)
                             (sift_extraction options))]) \<and>
       (New_QApplication \<in> set (snd (RunFeatureExtractor env options ilp)) \<longleftrightarrow>
          extraction_use_gpu (sift_extraction options) \<and> kUseOpenGL env) \<and>
       fst (RunFeatureImporter env options ip ilp) = 0 \<and>
       constructed (snd (RunFeatureImporter env options ip ilp)) =
         [FeatureImporter (reader_options_of env options ilp) ip] \<and>
       executions (snd (RunFeatureImporter env options ip ilp)) =
         [Call_Start (FeatureImporter (reader_options_of env options ilp) ip),
          Call_Wait (FeatureImporter (reader_options_of env options ilp) ip)] \<and>
       New_QApplication \<notin> set (snd (RunFeatureImporter env options ip ilp)))"
  by (intro conjI empty_list_early_return scan_independent no_list_file_runs)

text \<open>
  The early return, and the runs with no list file named, at the sample options, which
  request the GPU on a build with OpenGL.
\<close>

theorem empty_list_file_is_no_op_witness:
  "empty_list_file sample_env (Some ''empty.txt'')
   \<and> RunFeatureExtractor sample_env sample_options (Some ''empty.txt'') =
       (0, [Call_ReadTextFileLines ''empty.txt''])
   \<and> RunFeatureImporter sample_env sample_options ''features'' (Some ''empty.txt'') =
       (0, [Call_ReadTextFileLines ''empty.txt''])
   \<and> default_option '''' None = ''''
   \<and> camera_config_ok sample_env sample_options
   \<and> constructed (snd (RunFeatureImporter sample_env sample_options ''features'' None)) =
       [FeatureImporter (reader_options_of sample_env sample_options None) ''features'']
   \<and> New_QApplication \<notin> set (snd (RunFeatureImporter sample_env sample_options ''features'' None))
   \<and> New_QApplication \<in> set (snd (RunFeatureExtractor sample_env sample_options None))
   \<and> executions (snd (RunFeatureExtractor sample_env sample_options None)) =
       [Call_RunThreadWithOpenGLContext
          (SiftFeatureExtractor (reader_options_of sample_env sample_options None)
             (sift_extraction sample_options))]"
proof -
  have unnamed: "default_option '''' None = ''''"
    by (simp add: default_option_def)
  from empty_list_file_is_no_op
    [of sample_env "Some ''empty.txt''" sample_options "''features''" "\<lambda>d. []"]
    sample_facts(3)
  have "RunFeatureExtractor sample_env sample_options (Some ''empty.txt'') =
          (0, [Call_ReadTextFileLines ''empty.txt''])
        \<and> RunFeatureImporter sample_env sample_options ''features'' (Some ''empty.txt'') =
          (0, [Call_ReadTextFileLines ''empty.txt''])"
    by (simp add: default_option_def EXIT_SUCCESS_def)
  moreover
  from empty_list_file_is_no_op
    [of sample_env None sample_options "''features''" "\<lambda>d. []"]
    unnamed sample_facts(4)
  have "constructed (snd (RunFeatureImporter sample_env sample_options ''features'' None)) =
          [FeatureImporter (reader_options_of sample_env sample_options None) ''features'']
        \<and> New_QApplication \<notin> set (snd (RunFeatureImporter sample_env sample_options
             ''features'' None))
        \<and> (New_QApplication \<in> set (snd (RunFeatureExtractor sample_env sample_options None)) \<longleftrightarrow>
             extraction_use_gpu (sift_extraction sample_options) \<and> kUseOpenGL sample_env)
        \<and> executions (snd (RunFeatureExtractor sample_env sample_options None)) =
            (if extraction_use_gpu (sift_extraction sample_options) \<and> kUseOpenGL sample_env
             then [Call_RunThreadWithOpenGLContext
                  (SiftFeatureExtractor (reader_options_of sample_env sample_options None)
                     (sift_extraction sample_options))]
             else [Call_Start (SiftFeatureExtractor (reader_options_of sample_env sample_options None)
                              (sift_extraction sample_options)),
                Call_Wait (SiftFeatureExtractor (reader_options_of sample_env sample_options None)
                             (sift_extraction sample_options))])"
    by blast
  ultimately show ?thesis
    using unnamed sample_facts(3,4,6,7) by simp
qed

text \<open>
  Claim C7 as stated fails: with no list file named and an image directory whose scan
  finds nothing, the resolved image set is empty, and the extractor still creates a
  \<^verbatim>\<open>QApplication\<close> and constructs its worker.
\<close>

theorem empty_list_file_is_no_op_counterexample:
  "\<not> (resolved_image_set sample_env sample_options None = []
       \<longrightarrow> fst (RunFeatureExtractor sample_env sample_options None) = 0 \<and>
           constructed (snd (RunFeatureExtractor sample_env sample_options None)) = [] \<and>
           New_QApplication \<notin> set (snd (RunFeatureExtractor sample_env sample_options None)))"
  by (simp add: resolved_image_set_def RunFeatureExtractor_def Let_def default_option_def
      sample_env_def sample_options_def VerifyCameraParams_def sample_CSVToVector_def
      new_app_def run_worker_def)

end
